theory Spec2Isabelle
  imports Complex_Main
begin

section \<open>JavaScript values used by index.tsx\<close>

text \<open>
  A JavaScript number is either NaN or a numeric value. Prices are kept as the exact
  real value of the decimal text that \<open>parseFloat\<close> reads (the final rounding to an
  IEEE double and the infinities are outside the model); installment counts are the
  integers that \<open>parseInt\<close> returns. Every comparison with NaN is false, as in
  JavaScript.
\<close>

datatype 'a jsnum = NaN | Num 'a

definition num_gt :: "('a::linorder) jsnum \<Rightarrow> 'a \<Rightarrow> bool" where
  "num_gt x c = (case x of NaN \<Rightarrow> False | Num r \<Rightarrow> c < r)"

definition num_ge :: "('a::linorder) jsnum \<Rightarrow> 'a \<Rightarrow> bool" where
  "num_ge x c = (case x of NaN \<Rightarrow> False | Num r \<Rightarrow> c \<le> r)"

definition num_le :: "('a::linorder) jsnum \<Rightarrow> 'a \<Rightarrow> bool" where
  "num_le x c = (case x of NaN \<Rightarrow> False | Num r \<Rightarrow> r \<le> c)"

text \<open>
  Strings are lists of code units below 256. \<open>isWhiteSpace\<close> is the part of the
  JavaScript white space and line terminator set in that range (TAB, LF, VT, FF, CR,
  SP, NBSP); \<open>trim\<close> is \<open>String.prototype.trim\<close>.
\<close>

definition isWhiteSpace :: "char \<Rightarrow> bool" where
  "isWhiteSpace c =
     (c \<in> set [CHR 0x09, CHR 0x0A, CHR 0x0B, CHR 0x0C, CHR 0x0D, CHR 0x20, CHR 0xA0])"

definition trim :: "string \<Rightarrow> string" where
  "trim s = rev (dropWhile isWhiteSpace (rev (dropWhile isWhiteSpace s)))"

text \<open>The regular expression class \<open>\d\<close>: the ten ASCII digits.\<close>

definition isDigit :: "char \<Rightarrow> bool" where
  "isDigit c = (c \<in> set ''0123456789'')"

definition digitVal :: "char \<Rightarrow> nat" where
  "digitVal c = of_char c - 48"

text \<open>The value of a run of decimal digits, most significant digit first.\<close>

definition digitsToNat :: "string \<Rightarrow> nat" where
  "digitsToNat ds = foldl (\<lambda>acc c. 10 * acc + digitVal c) 0 ds"

text \<open>
  \<open>toLowerCase\<close> on code units below 256: A to Z and the Latin-1 capitals
  (0xC0 to 0xDE without the multiplication sign 0xD7) move up by 32.
\<close>

definition lowerChar :: "char \<Rightarrow> char" where
  "lowerChar c =
     (let n = (of_char c :: nat)
      in if (65 \<le> n \<and> n \<le> 90) \<or> (192 \<le> n \<and> n \<le> 222 \<and> n \<noteq> 215)
         then char_of (n + 32) else c)"

definition toLowerCase :: "string \<Rightarrow> string" where
  "toLowerCase s = map lowerChar s"

definition startsWith :: "string \<Rightarrow> string \<Rightarrow> bool" where
  "startsWith s p = (take (length p) s = p)"

fun includes_str :: "string \<Rightarrow> string \<Rightarrow> bool" where
  "includes_str [] p = (p = [])"
| "includes_str (c # s) p = (startsWith (c # s) p \<or> includes_str s p)"

text \<open>\<open>s.replace(a, b)\<close> with a one-character string pattern: only the first hit.\<close>

fun replaceFirst :: "char \<Rightarrow> char \<Rightarrow> string \<Rightarrow> string" where
  "replaceFirst a b [] = []"
| "replaceFirst a b (c # s) = (if c = a then b # s else c # replaceFirst a b s)"

text \<open>
  \<open>parseFloat\<close> on the longest prefix of the form digits, optionally a point and
  digits, with at least one digit; NaN when there is none. The source only calls it
  on text made of digits, points and commas, where the sign, exponent, white space
  and Infinity forms of the builtin cannot occur.
\<close>

definition parseFloat :: "string \<Rightarrow> real jsnum" where
  "parseFloat s =
     (let ip = takeWhile isDigit s;
          r = dropWhile isDigit s;
          fp = (case r of [] \<Rightarrow> []
                | c # r' \<Rightarrow> if c = CHR ''.'' then takeWhile isDigit r' else [])
      in if ip = [] \<and> fp = [] then NaN
         else Num (real (digitsToNat ip) + real (digitsToNat fp) / 10 ^ length fp))"

text \<open>
  \<open>parseInt(s, 10)\<close>: leading white space, an optional sign, then the longest run
  of digits; NaN when the run is empty.
\<close>

definition parseInt :: "string \<Rightarrow> int jsnum" where
  "parseInt s =
     (let s1 = dropWhile isWhiteSpace s;
          neg = (case s1 of [] \<Rightarrow> False | c # _ \<Rightarrow> c = CHR ''-'');
          s2 = (case s1 of [] \<Rightarrow> []
                | c # r \<Rightarrow> if c = CHR ''-'' \<or> c = CHR ''+'' then r else s1);
          ds = takeWhile isDigit s2
      in if ds = [] then NaN
         else Num (if neg then - int (digitsToNat ds) else int (digitsToNat ds)))"

text \<open>
  \<open>encodeURIComponent\<close>: the unreserved characters stay, every other code unit
  becomes the percent-escaped bytes of its UTF-8 form (one byte below 128, two from
  128 to 255).
\<close>

definition uriUnreserved :: "char \<Rightarrow> bool" where
  "uriUnreserved c =
     (c \<in> set (''ABCDEFGHIJKLMNOPQRSTUVWXYZabcdefghijklmnopqrstuvwxyz0123456789-_.!~*()''
                @ [CHR 0x27]))"

definition percent :: "nat \<Rightarrow> string" where
  "percent n = [CHR ''%'', ''0123456789ABCDEF'' ! (n div 16), ''0123456789ABCDEF'' ! (n mod 16)]"

definition encodeChar :: "char \<Rightarrow> string" where
  "encodeChar c =
     (let n = (of_char c :: nat)
      in if uriUnreserved c then [c]
         else if n < 128 then percent n
         else percent (192 + n div 64) @ percent (128 + n mod 64))"

definition encodeURIComponent :: "string \<Rightarrow> string" where
  "encodeURIComponent s = concat (map encodeChar s)"

section \<open>Price cleaning (parsePrice, lines 323 to 328)\<close>

definition priceChar :: "char \<Rightarrow> bool" where
  "priceChar c = (isDigit c \<or> c = CHR ''.'' \<or> c = CHR '','')"

definition cleanPrice :: "string \<Rightarrow> string" where
  "cleanPrice p = replaceFirst (CHR '','') (CHR ''.'') (filter priceChar p)"

definition parsePrice :: "string \<Rightarrow> real jsnum" where
  "parsePrice p = (if p = [] then Num 0 else parseFloat (cleanPrice p))"

section \<open>The parsed feed document\<close>

text \<open>
  The DOM tree that \<open>DOMParser.parseFromString(xmlText, "text/xml")\<close> returns,
  reduced to what the code reads: elements with their qualified tag name and child
  nodes, and text nodes (comments and processing instructions contribute neither
  elements nor text content and are left out). A document is its root element.
\<close>

datatype node = Element string "node list" | Text string

fun elements :: "node \<Rightarrow> node list" where
  "elements (Text s) = []"
| "elements (Element n cs) = Element n cs # concat (map elements cs)"

fun tagName :: "node \<Rightarrow> string" where
  "tagName (Element n cs) = n"
| "tagName (Text s) = []"

fun childNodes :: "node \<Rightarrow> node list" where
  "childNodes (Element n cs) = cs"
| "childNodes (Text s) = []"

fun textContent :: "node \<Rightarrow> string" where
  "textContent (Text s) = s"
| "textContent (Element n cs) = concat (map textContent cs)"

text \<open>
  \<open>document.getElementsByTagName(t)\<close>: every element of the document with that
  qualified name, in document order. \<open>element.getElementsByTagName(t)\<close>: the same
  over the descendants of the element, the element itself excluded. (The wildcard
  name is never passed by the code.)
\<close>

definition docElementsByTagName :: "node \<Rightarrow> string \<Rightarrow> node list" where
  "docElementsByTagName doc t = filter (\<lambda>e. tagName e = t) (elements doc)"

definition getElementsByTagName :: "node \<Rightarrow> string \<Rightarrow> node list" where
  "getElementsByTagName el t =
     filter (\<lambda>e. tagName e = t) (concat (map elements (childNodes el)))"

section \<open>The Product record (lines 7 to 19)\<close>

text \<open>
  The optional fields are total here: an absent \<open>bankPromo\<close> is the empty string
  and an absent \<open>pickup\<close> is False, which the code cannot tell apart (both are
  only tested for truthiness). \<open>id_str\<close> is the field \<open>id\<close>.
\<close>

record product =
  id_str :: string
  name :: string
  price :: "real jsnum"
  listPrice :: "real jsnum"
  imageUrl :: string
  installments :: "int jsnum"
  freeShipping :: bool
  sku :: string
  bankPromo :: string
  pickup :: bool

section \<open>Mapping one product element (lines 279 to 349)\<close>

text \<open>
  One probe of \<open>getText\<close>: the first element with the tag, accepted when it exists
  and its text content is not empty; the value returned is the trimmed text (which
  may be empty when the text is white space only).
\<close>

definition probe :: "node \<Rightarrow> string \<Rightarrow> string option" where
  "probe item t =
     (case getElementsByTagName item t of
        [] \<Rightarrow> None
      | el # _ \<Rightarrow> if textContent el \<noteq> [] then Some (trim (textContent el)) else None)"

fun getText :: "node \<Rightarrow> string list \<Rightarrow> string" where
  "getText item [] = []"
| "getText item (t # ts) =
     (case probe item t of
        Some r \<Rightarrow> r
      | None \<Rightarrow>
         (case probe item (''g:'' @ t) of
            Some r \<Rightarrow> r
          | None \<Rightarrow>
             (case probe item (''ns:'' @ t) of
                Some r \<Rightarrow> r
              | None \<Rightarrow> getText item ts)))"

declare getText.simps [simp del]

text \<open>\<open>xs[0]?.textContent\<close>: None stands for undefined.\<close>

definition firstTextContent :: "node list \<Rightarrow> string option" where
  "firstTextContent xs = (case xs of [] \<Rightarrow> None | el # _ \<Rightarrow> Some (textContent el))"

text \<open>\<open>a || b\<close> on optional strings: undefined and the empty string are falsy.\<close>

definition or_else :: "string option \<Rightarrow> string option \<Rightarrow> string option" where
  "or_else a b = (case a of Some (c # s) \<Rightarrow> Some (c # s) | _ \<Rightarrow> b)"

text \<open>\<open>s.match(/(\d+)/)\<close>: the first run of digits, None when there is no digit.\<close>

definition firstDigits :: "string \<Rightarrow> string option" where
  "firstDigits s =
     (let r = dropWhile (\<lambda>c. \<not> isDigit c) s
      in if r = [] then None else Some (takeWhile isDigit r))"

text \<open>The installment count, lines 306 to 320.\<close>

definition installmentsOf :: "node \<Rightarrow> int jsnum" where
  "installmentsOf item =
     (case getElementsByTagName item ''g:installment'' @ getElementsByTagName item ''installment'' of
        installmentNode # _ \<Rightarrow>
          (case or_else (firstTextContent (getElementsByTagName installmentNode ''g:months''))
                        (firstTextContent (getElementsByTagName installmentNode ''months'')) of
             Some (c # s) \<Rightarrow> parseInt (c # s)
           | _ \<Rightarrow> Num 1)
      | [] \<Rightarrow>
          (let instText = getText item [''installment'', ''installments'']
           in if instText \<noteq> [] then
                (case firstDigits instText of Some m \<Rightarrow> parseInt m | None \<Rightarrow> Num 1)
              else Num 1))"

text \<open>
  What the code calls and does not define, taken as parameters:
  \<open>Math.random().toString(36)\<close> (one draw per product
  element, indexed by the position of the element); \<open>fetch\<close> with the reading of the
  response body; \<open>DOMParser.parseFromString\<close>; \<open>Intl.NumberFormat(...).format\<close>
  behind \<open>formatPrice\<close>; and the loading of an image, which gives its width and
  height or fails.

  A response body is read either as text or, for the wrapped relay, as JSON of which
  only the \<open>contents\<close> field is used (a string, or absent/null); None stands for a
  read that throws.
\<close>

datatype json_contents = NoContents | Contents string

record response =
  ok :: bool
  body_text :: "string option"
  body_json :: "json_contents option"

datatype reply = Rejected | Resolved response

record environment =
  randomString :: "nat \<Rightarrow> string"
  fetch :: "string \<Rightarrow> reply"
  parseFromString :: "string \<Rightarrow> node"
  formatPrice :: "real jsnum \<Rightarrow> string"
  loadImage :: "string \<Rightarrow> (real \<times> real) option"

definition mapItem :: "environment \<Rightarrow> nat \<Rightarrow> node \<Rightarrow> product" where
  "mapItem env i item =
     (let title = getText item [''title'', ''name''];
          ident = getText item [''id'', ''sku'', ''g:id''];
          rawPrice = getText item [''price'', ''g:price''];
          rawSalePrice = getText item [''sale_price'', ''g:sale_price''];
          rawImage = getText item [''image_link'', ''g:image_link''];
          price = (if rawSalePrice \<noteq> [] then parsePrice rawSalePrice else parsePrice rawPrice);
          listPrice = (if rawSalePrice \<noteq> [] \<and> rawPrice \<noteq> [] then parsePrice rawPrice else Num 0);
          cleanImage = takeWhile (\<lambda>c. c \<noteq> CHR ''?'') rawImage;
          proxyImage = (if cleanImage \<noteq> []
                        then ''https://wsrv.nl/?url='' @ encodeURIComponent cleanImage
                             @ ''&output=jpg&w=1000&h=1000''
                        else [])
      in \<lparr> id_str = (if ident \<noteq> [] then ident else randomString env i),
           name = (if title \<noteq> [] then title else ''Sin Nombre''),
           price = price,
           listPrice = listPrice,
           imageUrl = proxyImage,
           installments = installmentsOf item,
           freeShipping = num_gt price 100000,
           sku = (if ident \<noteq> [] then ident else ''N/A''),
           bankPromo = [],
           pickup = True \<rparr>)"

section \<open>Normalization (lines 258 to 359)\<close>

datatype error =
    FetchExhausted
  | InvalidContent string
  | ParseError
  | NoProductsFound
  | EmptyAfterFiltering

text \<open>The three-name search for product elements, lines 269 to 271.\<close>

definition locateItems :: "node \<Rightarrow> node list" where
  "locateItems xmlDoc =
     (let items = docElementsByTagName xmlDoc ''item'';
          items = (if items = [] then docElementsByTagName xmlDoc ''entry'' else items);
          items = (if items = [] then docElementsByTagName xmlDoc ''product'' else items)
      in items)"

definition mappedProducts :: "environment \<Rightarrow> node list \<Rightarrow> product list" where
  "mappedProducts env items = map (\<lambda>(i, item). mapItem env i item) (enumerate 0 items)"

definition validProduct :: "product \<Rightarrow> bool" where
  "validProduct p = (num_gt (price p) 0 \<or> name p \<noteq> ''Sin Nombre'')"

definition normalizeDoc :: "environment \<Rightarrow> node \<Rightarrow> error + product list" where
  "normalizeDoc env xmlDoc =
     (if docElementsByTagName xmlDoc ''parsererror'' \<noteq> [] then Inl ParseError
      else
        let items = locateItems xmlDoc
        in if items = [] then Inl NoProductsFound
           else
             let validProducts = filter validProduct (mappedProducts env items)
             in if validProducts \<noteq> [] then Inr validProducts
                else Inl EmptyAfterFiltering)"

section \<open>Fetching through the relays (lines 204 to 254)\<close>

definition getXmlUrl :: "string \<Rightarrow> string" where
  "getXmlUrl input =
     (let trimmed = trim input
      in if trimmed \<noteq> [] \<and> list_all isDigit trimmed
         then ''https://www.pardo.com.ar/XMLData/cluster'' @ trimmed @ ''.xml''
         else trimmed)"

record strategy =
  strategy_name :: string
  strategy_url :: string
  isWrapped :: bool

definition strategies :: "environment \<Rightarrow> string \<Rightarrow> strategy list" where
  "strategies env targetUrl =
     [\<lparr> strategy_name = ''AllOrigins Raw'',
         strategy_url = ''https://api.allorigins.win/raw?url='' @ encodeURIComponent targetUrl,
         isWrapped = False \<rparr>,
      \<lparr> strategy_name = ''CORSProxy'',
         strategy_url = ''https://corsproxy.io/?'' @ encodeURIComponent targetUrl,
         isWrapped = False \<rparr>,
      \<lparr> strategy_name = ''AllOrigins Wrapped'',
         strategy_url = ''https://api.allorigins.win/get?url='' @ encodeURIComponent targetUrl,
         isWrapped = True \<rparr>]"

text \<open>
  The variables of the loop: \<open>xmlText\<close> (None for null or undefined),
  \<open>successSource\<close>, and the two console traces: the strategies announced by
  \<open>console.log\<close> before their request, and those whose attempt threw
  (\<open>console.warn\<close>, where \<open>lastError\<close> is set).
\<close>

record fetch_state =
  xmlText :: "string option"
  successSource :: string
  attempted :: "string list"
  failed :: "string list"

definition truthy :: "string option \<Rightarrow> bool" where
  "truthy x = (case x of Some (c # s) \<Rightarrow> True | _ \<Rightarrow> False)"

definition attempt :: "environment \<Rightarrow> strategy \<Rightarrow> fetch_state \<Rightarrow> fetch_state" where
  "attempt env strat st =
     (let st1 = st\<lparr>attempted := attempted st @ [strategy_name strat]\<rparr>;
          thrown = st1\<lparr>failed := failed st1 @ [strategy_name strat]\<rparr>
      in case fetch env (strategy_url strat) of
           Rejected \<Rightarrow> thrown
         | Resolved res \<Rightarrow>
             if ok res then
               (if isWrapped strat then
                  (case body_json res of
                     None \<Rightarrow> thrown
                   | Some NoContents \<Rightarrow>
                       st1\<lparr>xmlText := None, successSource := strategy_name strat\<rparr>
                   | Some (Contents c) \<Rightarrow>
                       st1\<lparr>xmlText := Some c, successSource := strategy_name strat\<rparr>)
                else
                  (case body_text res of
                     None \<Rightarrow> thrown
                   | Some t \<Rightarrow> st1\<lparr>xmlText := Some t, successSource := strategy_name strat\<rparr>))
             else st1)"

fun tryStrategies :: "environment \<Rightarrow> strategy list \<Rightarrow> fetch_state \<Rightarrow> fetch_state" where
  "tryStrategies env [] st = st"
| "tryStrategies env (strat # rest) st =
     (if truthy (xmlText st) then st else tryStrategies env rest (attempt env strat st))"

definition initial_fetch_state :: fetch_state where
  "initial_fetch_state = \<lparr> xmlText = None, successSource = [], attempted = [], failed = [] \<rparr>"

definition isHtml :: "string \<Rightarrow> bool" where
  "isHtml x = (startsWith (toLowerCase (trim x)) ''<!doctype html'' \<or> includes_str x ''<html'')"

text \<open>Lines 214 to 254: the loop, then the two checks on what it left in \<open>xmlText\<close>.\<close>

definition acquire :: "environment \<Rightarrow> string \<Rightarrow> error + string" where
  "acquire env targetUrl =
     (let st = tryStrategies env (strategies env targetUrl) initial_fetch_state
      in case xmlText st of
           Some (c # s) \<Rightarrow>
             if isHtml (c # s) then Inl (InvalidContent (successSource st)) else Inr (c # s)
         | _ \<Rightarrow> Inl FetchExhausted)"

definition loadFeed :: "environment \<Rightarrow> string \<Rightarrow> error + product list" where
  "loadFeed env targetUrl =
     (case acquire env targetUrl of
        Inl e \<Rightarrow> Inl e
      | Inr x \<Rightarrow> normalizeDoc env (parseFromString env x))"

record app_state =
  products :: "product list"
  selectedProduct :: "product option"
  errorMsg :: "error option"

definition fetchClusterData :: "environment \<Rightarrow> string \<Rightarrow> app_state \<Rightarrow> app_state" where
  "fetchClusterData env clusterInput st =
     (let targetUrl = getXmlUrl clusterInput
      in if targetUrl = [] then st
         else
           (case loadFeed env targetUrl of
              Inl e \<Rightarrow> \<lparr> products = [], selectedProduct = None, errorMsg = Some e \<rparr>
            | Inr ps \<Rightarrow>
                \<lparr> products = ps,
                  selectedProduct = (case ps of [] \<Rightarrow> None | p # _ \<Rightarrow> Some p),
                  errorMsg = None \<rparr>))"

section \<open>Drawing one product (drawProduct, lines 371 to 556)\<close>

text \<open>
  The canvas calls in the order the function issues them. \<open>RoundRect\<close> stands for
  one call of the helper \<open>roundRect\<close> (lines 559 to 571), which lays the path of a
  rectangle at (x, y) of size w by h with corner radius r; \<open>SaveAs\<close> is the download
  link with its file name. Coordinates are real numbers.
\<close>

datatype cmd =
    SetSize real real
  | FillStyle string
  | Font string
  | TextAlign string
  | TextBaseline string
  | FillRect real real real real
  | RoundRect real real real real real
  | Fill
  | FillText string real real
  | DrawImage string real real real real
  | SaveAs string

record config =
  frameColor :: string
  showPrice :: bool
  showBadges :: bool
  customBankText :: string

definition pardoBlue :: string where "pardoBlue = ''#0033A0''"
definition orangeBadge :: string where "orangeBadge = ''#FF6600''"
definition debitBadge :: string where "debitBadge = ''#0055FF''"
definition pickupBadge :: string where "pickupBadge = ''#B3D4FC''"
definition priceColor :: string where "priceColor = ''#FF6600''"
definition frameText :: string where "frameText = ''#FFFF00''"

text \<open>\<open>Number.prototype.toString\<close> on an integer or NaN (decimal, no exponent form).\<close>

fun natToString :: "nat \<Rightarrow> string" where
  "natToString n =
     (if n < 10 then [''0123456789'' ! n]
      else natToString (n div 10) @ [''0123456789'' ! (n mod 10)])"

declare natToString.simps [simp del]

definition numToString :: "int jsnum \<Rightarrow> string" where
  "numToString x =
     (case x of
        NaN \<Rightarrow> ''NaN''
      | Num i \<Rightarrow> if i < 0 then CHR ''-'' # natToString (nat (- i)) else natToString (nat i))"

text \<open>
  \<open>product.price / product.installments\<close>. The code divides only under
  \<open>installments > 1\<close>, so the divisor is never zero where this is used.
\<close>

definition quotient :: "real jsnum \<Rightarrow> int jsnum \<Rightarrow> real jsnum" where
  "quotient p n =
     (case p of
        NaN \<Rightarrow> NaN
      | Num a \<Rightarrow> (case n of NaN \<Rightarrow> NaN | Num b \<Rightarrow> Num (a / real_of_int b)))"

definition WIDTH :: real where "WIDTH = 1000"
definition HEIGHT :: real where "HEIGHT = 1000"
definition frameTop :: real where "frameTop = 130"
definition frameBottom :: real where "frameBottom = 130"
definition safeAreaTop :: real where "safeAreaTop = frameTop"
definition safeAreaHeight :: real where "safeAreaHeight = HEIGHT - frameTop - frameBottom"

text \<open>Step 1, lines 376 to 383.\<close>

definition drawBackground :: "cmd list" where
  "drawBackground = [SetSize WIDTH HEIGHT, FillStyle ''#FFFFFF'', FillRect 0 0 WIDTH HEIGHT]"

text \<open>Step 2, lines 393 to 425: the photo, or the placeholder when loading fails.\<close>

definition drawPhoto :: "environment \<Rightarrow> product \<Rightarrow> cmd list" where
  "drawPhoto env product =
     (case loadImage env (imageUrl product) of
        Some (w, h) \<Rightarrow>
          (let padding = 20;
               maxImgH = safeAreaHeight - 140;
               maxImgW = WIDTH - (padding * 2);
               scale = min (maxImgW / w) (maxImgH / h);
               drawW = w * scale;
               drawH = h * scale;
               x = (WIDTH - drawW) / 2;
               y = safeAreaTop + 40
           in [DrawImage (imageUrl product) x y drawW drawH])
      | None \<Rightarrow>
          [FillStyle ''#f5f5f5'', FillRect 100 safeAreaTop 800 safeAreaHeight,
           FillStyle ''#ccc'', Font ''30px Roboto'', TextAlign ''center'',
           FillText ''Sin Imagen'' 500 500])"

text \<open>
  Step 3, lines 429 to 498: the three badges. The second binding of \<open>rightBadgeY\<close>
  is the update at line 478; the update of \<open>leftBadgeY\<close> at line 452 is read by
  nothing after it and is left out.
\<close>

definition drawBadges :: "config \<Rightarrow> product \<Rightarrow> cmd list" where
  "drawBadges cfg product =
     (if showBadges cfg then
        (let badgeY = safeAreaTop + 20;
             leftBadgeY = badgeY;
             rightBadgeY = badgeY;
             promoText = (if bankPromo product \<noteq> [] then bankPromo product
                          else customBankText cfg);
             promo =
               (if promoText \<noteq> [] then
                  [FillStyle debitBadge, RoundRect 30 leftBadgeY 280 80 10, Fill,
                   FillStyle ''white'', Font ''900 36px Roboto'', TextAlign ''center'',
                   FillText ''10% OFF'' (30 + 140) (leftBadgeY + 40),
                   Font ''400 18px Roboto'',
                   FillText (''1 PAGO D'' @ [CHR 0xE9] @ ''bito'') (30 + 140) (leftBadgeY + 65)]
                else []);
             inst =
               (if num_gt (installments product) 1 then
                  (let badgeW = 260; badgeH = 70; badgeX = WIDTH - badgeW - 30
                   in [FillStyle orangeBadge, RoundRect badgeX rightBadgeY badgeW badgeH 10, Fill,
                       FillStyle ''white'', Font ''900 50px Roboto'', TextAlign ''left'',
                       TextBaseline ''middle'',
                       FillText (numToString (installments product)) (badgeX + 15)
                         (rightBadgeY + (badgeH / 2) + 2),
                       Font ''700 20px Roboto'',
                       FillText ''SIN'' (badgeX + 80) (rightBadgeY + 25),
                       FillText (''INTER'' @ [CHR 0xC9] @ ''S'') (badgeX + 80) (rightBadgeY + 48)])
                else []);
             rightBadgeY = (if num_gt (installments product) 1 then rightBadgeY + 80
                            else rightBadgeY);
             pick =
               (if pickup product then
                  (let badgeW = 260; badgeH = 40; badgeX = WIDTH - badgeW - 30
                   in [FillStyle pickupBadge, RoundRect badgeX rightBadgeY badgeW badgeH 20, Fill,
                       FillStyle ''#004488'', Font ''700 20px Roboto'', TextAlign ''center'',
                       TextBaseline ''middle'',
                       FillText (CHR 0xA1 # ''RETIRO GRATIS!'') (badgeX + (badgeW / 2))
                         (rightBadgeY + (badgeH / 2) + 2)])
                else [])
         in promo @ inst @ pick)
      else [])"

text \<open>Step 4, lines 501 to 524: the price and, above it, the installment line.\<close>

definition drawPrice :: "environment \<Rightarrow> config \<Rightarrow> product \<Rightarrow> cmd list" where
  "drawPrice env cfg product =
     (if showPrice cfg then
        (let priceY = HEIGHT - frameBottom - 30
         in [FillStyle priceColor, Font ''900 110px Roboto'', TextAlign ''center'',
             TextBaseline ''bottom'',
             FillText (formatPrice env (price product)) (WIDTH / 2) priceY]
            @ (if num_gt (installments product) 1 then
                 (let installmentVal = quotient (price product) (installments product);
                      instText = ''Hasta '' @ numToString (installments product) @ ''x ''
                                 @ formatPrice env installmentVal
                                 @ '' cuotas sin inter'' @ [CHR 0xE9] @ ''s''
                  in [FillStyle orangeBadge, Font ''700 32px Roboto'', TextBaseline ''bottom'',
                      FillText instText (WIDTH / 2) (priceY - 110)])
               else []))
      else [])"

text \<open>Step 5, lines 529 to 546: the frame bars and the brand text.\<close>

definition drawFrame :: "config \<Rightarrow> cmd list" where
  "drawFrame cfg =
     [FillStyle (frameColor cfg),
      FillRect 0 0 WIDTH frameTop,
      FillRect 0 (HEIGHT - frameBottom) WIDTH frameBottom,
      FillRect 0 0 30 HEIGHT,
      FillRect (WIDTH - 30) 0 30 HEIGHT,
      FillStyle frameText, Font ''900 80px Roboto'', TextAlign ''center'',
      TextBaseline ''middle'',
      FillText ''PARDO'' (WIDTH / 2) (frameTop / 2),
      Font ''700 30px Roboto'',
      FillText ''WWW.PARDO.COM.AR'' (WIDTH / 2) (HEIGHT - (frameBottom / 2))]"

text \<open>Step 6, lines 550 to 555: the export under the name \<open>pardo_<sku>.jpg\<close>.\<close>

definition exportName :: "product \<Rightarrow> string" where
  "exportName product = ''pardo_'' @ sku product @ ''.jpg''"

definition drawDownload :: "product \<Rightarrow> bool \<Rightarrow> cmd list" where
  "drawDownload product download = (if download then [SaveAs (exportName product)] else [])"

definition drawProduct :: "environment \<Rightarrow> config \<Rightarrow> product \<Rightarrow> bool \<Rightarrow> cmd list" where
  "drawProduct env cfg product download =
     drawBackground @ drawPhoto env product @ drawBadges cfg product
     @ drawPrice env cfg product @ drawFrame cfg @ drawDownload product download"

text \<open>The rounded rectangles of a drawing, as (x, y, width, height), in drawing order.\<close>

fun badgeRects :: "cmd list \<Rightarrow> (real \<times> real \<times> real \<times> real) list" where
  "badgeRects [] = []"
| "badgeRects (RoundRect x y w h r # cs) = (x, y, w, h) # badgeRects cs"
| "badgeRects (c # cs) = badgeRects cs"

text \<open>The texts of a drawing with their anchor points, in drawing order.\<close>

fun texts :: "cmd list \<Rightarrow> (string \<times> real \<times> real) list" where
  "texts [] = []"
| "texts (FillText t x y # cs) = (t, x, y) # texts cs"
| "texts (c # cs) = texts cs"

text \<open>Two rectangles share a point of positive area.\<close>

fun overlap :: "real \<times> real \<times> real \<times> real \<Rightarrow> real \<times> real \<times> real \<times> real \<Rightarrow> bool" where
  "overlap (x, y, w, h) (x', y', w', h') =
     (x < x' + w' \<and> x' < x + w \<and> y < y' + h' \<and> y' < y + h)"

section \<open>Sample feeds, products and configurations\<close>

text \<open>
  A stand-in for the builtins: no relay answers, no text parses, prices are printed
  without digit grouping, no image loads.
\<close>

definition demo_env :: environment where
  "demo_env =
     \<lparr> randomString = (\<lambda>i. ''0.'' @ natToString i),
       fetch = (\<lambda>u. Rejected),
       parseFromString = (\<lambda>s. Element ''parsererror'' [Text s]),
       formatPrice = (\<lambda>p. case p of NaN \<Rightarrow> ''$ NaN'' | Num r \<Rightarrow> ''$ '' @ natToString (nat \<lfloor>r\<rfloor>)),
       loadImage = (\<lambda>u. None) \<rparr>"

text \<open>A product element in Google Shopping form: a price with its currency code, twelve months.\<close>

definition tvItem :: node where
  "tvItem =
     Element ''item''
       [Element ''title'' [Text ''Smart TV''],
        Element ''g:id'' [Text ''86QNED85SQA''],
        Element ''g:price'' [Text ''6199999 ARS''],
        Element ''g:installment''
          [Element ''g:months'' [Text ''12''], Element ''g:amount'' [Text ''516666 ARS'']]]"

text \<open>A product on sale for 0, with a list price of 100.\<close>

definition saleZeroItem :: node where
  "saleZeroItem =
     Element ''item''
       [Element ''title'' [Text ''TV''],
        Element ''g:price'' [Text ''100 ARS''],
        Element ''g:sale_price'' [Text ''0 ARS'']]"

text \<open>A product whose price field holds no digit, and nothing else.\<close>

definition nanItem :: node where
  "nanItem = Element ''item'' [Element ''price'' [Text ''ARS'']]"

definition nanDoc :: node where
  "nanDoc = Element ''rss'' [Element ''channel'' [nanItem]]"

text \<open>A titled, priced product whose installment element says zero months.\<close>

definition zeroMonthsItem :: node where
  "zeroMonthsItem =
     Element ''item''
       [Element ''title'' [Text ''TV''],
        Element ''id'' [Text ''A1''],
        Element ''price'' [Text ''100''],
        Element ''installment'' [Element ''months'' [Text ''0'']]]"

definition zeroMonthsDoc :: node where
  "zeroMonthsDoc = Element ''rss'' [Element ''channel'' [zeroMonthsItem]]"

definition zeroMonthsProduct :: product where
  "zeroMonthsProduct =
     \<lparr> id_str = ''A1'', name = ''TV'', price = Num 100, listPrice = Num 0, imageUrl = [],
       installments = Num 0, freeShipping = False, sku = ''A1'', bankPromo = [],
       pickup = True \<rparr>"

text \<open>Two different products without any id or sku field.\<close>

definition radioItem :: node where
  "radioItem = Element ''item'' [Element ''title'' [Text ''Radio''], Element ''price'' [Text ''10'']]"

definition lampItem :: node where
  "lampItem = Element ''item'' [Element ''title'' [Text ''Lamp''], Element ''price'' [Text ''20'']]"

text \<open>An Atom-style feed that also holds a \<open>product\<close> element, and a feed without products.\<close>

definition entryDoc :: node where
  "entryDoc =
     Element ''feed''
       [Element ''entry'' [Element ''title'' [Text ''Radio'']],
        Element ''product'' [Element ''title'' [Text ''Lamp'']]]"

definition emptyDoc :: node where
  "emptyDoc = Element ''rss'' [Element ''channel'' [Element ''title'' [Text ''Pardo'']]]"

definition tvDoc :: node where
  "tvDoc = Element ''rss'' [Element ''channel'' [Element ''title'' [Text ''Pardo''], tvItem]]"

text \<open>
  The configuration the application starts with (lines 197 to 200), a product with
  a twelve-month plan, and the same product without a plan.
\<close>

definition demo_cfg :: config where
  "demo_cfg =
     \<lparr> frameColor = pardoBlue, showPrice = True, showBadges = True,
       customBankText = ''10% OFF 1 PAGO D'' @ [CHR 0xE9] @ ''bito'' \<rparr>"

definition tvProduct :: product where
  "tvProduct =
     \<lparr> id_str = ''demo-lg-86'', name = ''Smart TV LG 86QNED85SQA'', price = Num 6199999,
       listPrice = Num 0,
       imageUrl = ''https://images.fravega.com/f500/1d04400f0896024927500589d8544d65.jpg'',
       installments = Num 12, freeShipping = False, sku = ''86QNED85SQA'',
       bankPromo = [], pickup = True \<rparr>"

definition cashProduct :: product where
  "cashProduct = tvProduct\<lparr>installments := Num 1\<rparr>"

text \<open>Both check boxes of the panel cleared, and a promotion text typed by the user.\<close>

definition plain_cfg :: config where
  "plain_cfg = demo_cfg\<lparr>showPrice := False, showBadges := False\<rparr>"

definition visa_cfg :: config where
  "visa_cfg = demo_cfg\<lparr>customBankText := ''20% OFF VISA''\<rparr>"

text \<open>
  A cluster feed, the text a relay serves for it and its parsed document, and the
  error page a blocked relay serves instead. In \<open>html_env\<close> the first relay
  answers with the error page and the second with the feed; the third fails.
\<close>

definition feedUrl :: string where
  "feedUrl = ''https://www.pardo.com.ar/XMLData/cluster1629.xml''"

definition feedText :: string where
  "feedText =
     ''<rss><channel><item><title>Radio</title><price>10</price></item></channel></rss>''"

definition radioDoc :: node where
  "radioDoc = Element ''rss'' [Element ''channel'' [radioItem]]"

definition htmlPage :: string where
  "htmlPage =
     ''<!DOCTYPE html><html><head><title>403 Forbidden</title></head><body>Forbidden</body></html>''"

definition html_env :: environment where
  "html_env =
     demo_env
       \<lparr> fetch :=
           (\<lambda>u. if u = ''https://api.allorigins.win/raw?url='' @ encodeURIComponent feedUrl
                then Resolved \<lparr> ok = True, body_text = Some htmlPage, body_json = None \<rparr>
                else if u = ''https://corsproxy.io/?'' @ encodeURIComponent feedUrl
                then Resolved \<lparr> ok = True, body_text = Some feedText, body_json = None \<rparr>
                else Rejected),
         parseFromString :=
           (\<lambda>s. if s = feedText then radioDoc else Element ''parsererror'' [Text s]) \<rparr>"

definition start_state :: app_state where
  "start_state = \<lparr> products = [tvProduct], selectedProduct = Some tvProduct, errorMsg = None \<rparr>"

section \<open>Facts about the JavaScript helpers\<close>

lemma point_no_digit: "\<not> isDigit (CHR ''.'')"
  by (simp add: isDigit_def)

lemma replaceFirst_no_digit:
  "\<forall>c\<in>set s. \<not> isDigit c \<Longrightarrow> \<forall>c\<in>set (replaceFirst (CHR '','') (CHR ''.'') s). \<not> isDigit c"
  by (induction s) (simp_all add: point_no_digit)

lemma parseFloat_no_digit:
  assumes "\<forall>c\<in>set s. \<not> isDigit c"
  shows "parseFloat s = NaN"
proof (cases s)
  case Nil
  then show ?thesis by (simp add: parseFloat_def)
next
  case (Cons c r)
  have r: "takeWhile isDigit r = []"
    using assms Cons by (cases r) auto
  show ?thesis
    using assms Cons r by (simp add: parseFloat_def)
qed

lemma parseFloat_not_negative:
  "parseFloat s = NaN \<or> (\<exists>r. 0 \<le> r \<and> parseFloat s = Num r)"
  by (simp add: parseFloat_def Let_def)

lemma parsePrice_not_negative:
  "parsePrice s = NaN \<or> (\<exists>r. 0 \<le> r \<and> parsePrice s = Num r)"
  using parseFloat_not_negative [of "cleanPrice s"] by (simp add: parsePrice_def)

lemmas dom_eval = getText.simps probe_def getElementsByTagName_def docElementsByTagName_def
  trim_def isWhiteSpace_def firstTextContent_def or_else_def firstDigits_def
lemmas num_eval = parsePrice_def cleanPrice_def priceChar_def isDigit_def parseFloat_def
  digitsToNat_def digitVal_def parseInt_def

lemma mapItem_price:
  "price (mapItem env i item) =
     (if getText item [''sale_price'', ''g:sale_price''] \<noteq> []
      then parsePrice (getText item [''sale_price'', ''g:sale_price''])
      else parsePrice (getText item [''price'', ''g:price'']))"
  by (simp add: mapItem_def Let_def)

lemma mapItem_listPrice:
  "listPrice (mapItem env i item) =
     (if getText item [''sale_price'', ''g:sale_price''] \<noteq> []
         \<and> getText item [''price'', ''g:price''] \<noteq> []
      then parsePrice (getText item [''price'', ''g:price''])
      else Num 0)"
  by (simp add: mapItem_def Let_def)

lemma mapItem_name:
  "name (mapItem env i item) =
     (if getText item [''title'', ''name''] \<noteq> [] then getText item [''title'', ''name'']
      else ''Sin Nombre'')"
  by (simp add: mapItem_def Let_def)

lemma mapItem_id_str:
  "id_str (mapItem env i item) =
     (if getText item [''id'', ''sku'', ''g:id''] \<noteq> [] then getText item [''id'', ''sku'', ''g:id'']
      else randomString env i)"
  by (simp add: mapItem_def Let_def)

lemma mapItem_sku:
  "sku (mapItem env i item) =
     (if getText item [''id'', ''sku'', ''g:id''] \<noteq> [] then getText item [''id'', ''sku'', ''g:id'']
      else ''N/A'')"
  by (simp add: mapItem_def Let_def)

lemma mapItem_installments: "installments (mapItem env i item) = installmentsOf item"
  by (simp add: mapItem_def Let_def)

lemma mapItem_price_not_negative:
  "price (mapItem env i item) = NaN \<or> num_ge (price (mapItem env i item)) 0"
proof -
  have "\<And>s. parsePrice s = NaN \<or> num_ge (parsePrice s) 0"
    using parsePrice_not_negative by (fastforce simp: num_ge_def)
  then show ?thesis by (simp add: mapItem_price)
qed

lemma mappedProducts_nth:
  "k < length items \<Longrightarrow> mappedProducts env items ! k = mapItem env k (items ! k)"
  by (simp add: mappedProducts_def nth_enumerate_eq)

lemma length_mappedProducts: "length (mappedProducts env items) = length items"
  by (simp add: mappedProducts_def)

lemma mappedProducts_member:
  assumes "p \<in> set (mappedProducts env items)"
  shows "\<exists>k<length items. p = mapItem env k (items ! k)"
proof -
  from assms obtain k where "k < length (mappedProducts env items)"
    and "mappedProducts env items ! k = p"
    by (auto simp: in_set_conv_nth)
  then show ?thesis
    using mappedProducts_nth [of k items env] by (auto simp: length_mappedProducts)
qed

lemma normalizeDoc_unfold:
  assumes "docElementsByTagName doc ''parsererror'' = []" and "locateItems doc \<noteq> []"
  shows "normalizeDoc env doc =
           (if filter validProduct (mappedProducts env (locateItems doc)) = []
            then Inl EmptyAfterFiltering
            else Inr (filter validProduct (mappedProducts env (locateItems doc))))"
  using assms by (simp add: normalizeDoc_def Let_def)

lemma validProduct_iff:
  "validProduct p \<longleftrightarrow> \<not> ((price p = NaN \<or> num_le (price p) 0) \<and> name p = ''Sin Nombre'')"
  by (cases "price p") (auto simp: validProduct_def num_gt_def num_le_def)

lemma digit_not_space_or_sign:
  assumes "isDigit c"
  shows "\<not> isWhiteSpace c \<and> c \<noteq> CHR ''-'' \<and> c \<noteq> CHR ''+''"
proof -
  from assms have "c \<in> set ''0123456789''" by (simp add: isDigit_def)
  then show ?thesis by (auto simp: isWhiteSpace_def)
qed

lemma parseInt_digits:
  assumes "ds \<noteq> []" and "\<forall>c\<in>set ds. isDigit c"
  shows "parseInt ds = Num (int (digitsToNat ds))"
proof -
  from assms obtain c r where ds: "ds = c # r" by (cases ds) auto
  with assms have c: "isDigit c" and r: "takeWhile isDigit r = r"
    by simp_all
  from c digit_not_space_or_sign [of c] show ?thesis
    unfolding ds by (simp add: parseInt_def Let_def r)
qed

lemma firstDigits_Some:
  "firstDigits s = Some m \<Longrightarrow> m \<noteq> [] \<and> (\<forall>c\<in>set m. isDigit c)"
proof -
  assume h: "firstDigits s = Some m"
  let ?r = "dropWhile (\<lambda>c. \<not> isDigit c) s"
  from h have r: "?r \<noteq> []" and m: "m = takeWhile isDigit ?r"
    by (auto simp: firstDigits_def Let_def split: if_splits)
  from r have "isDigit (hd ?r)"
    using hd_dropWhile [of "\<lambda>c. \<not> isDigit c" s] by simp
  with r m have "m \<noteq> []" by (cases ?r) auto
  moreover from m have "\<forall>c\<in>set m. isDigit c"
    by (auto dest: set_takeWhileD)
  ultimately show ?thesis by simp
qed

lemma installmentsOf_default:
  assumes "getElementsByTagName item ''g:installment'' = []"
    and "getElementsByTagName item ''installment'' = []"
    and "getText item [''installment'', ''installments''] = []"
  shows "installmentsOf item = Num 1"
  using assms by (simp add: installmentsOf_def)

lemma installmentsOf_flat:
  assumes "getElementsByTagName item ''g:installment'' = []"
    and "getElementsByTagName item ''installment'' = []"
  shows "num_ge (installmentsOf item) 0"
proof (cases "firstDigits (getText item [''installment'', ''installments''])")
  case None
  with assms show ?thesis by (simp add: installmentsOf_def Let_def num_ge_def)
next
  case (Some m)
  from firstDigits_Some [OF Some] have "parseInt m = Num (int (digitsToNat m))"
    by (simp add: parseInt_digits)
  with assms Some show ?thesis by (simp add: installmentsOf_def Let_def num_ge_def)
qed

lemma badgeRects_append: "badgeRects (a @ b) = badgeRects a @ badgeRects b"
  by (induction a rule: badgeRects.induct) simp_all

lemma texts_append: "texts (a @ b) = texts a @ texts b"
  by (induction a rule: texts.induct) simp_all

lemmas geometry = WIDTH_def HEIGHT_def frameTop_def frameBottom_def safeAreaTop_def
  safeAreaHeight_def

lemma badgeRects_drawBadges:
  "badgeRects (drawBadges cfg p) =
     (if showBadges cfg then
        (if bankPromo p \<noteq> [] \<or> customBankText cfg \<noteq> [] then [(30, 150, 280, 80)] else [])
        @ (if num_gt (installments p) 1 then [(710, 150, 260, 70)] else [])
        @ (if pickup p then [(710, if num_gt (installments p) 1 then 230 else 150, 260, 40)]
           else [])
      else [])"
  by (simp add: drawBadges_def Let_def geometry badgeRects_append)

lemma badgeRects_drawProduct:
  "badgeRects (drawProduct env cfg p d) = badgeRects (drawBadges cfg p)"
proof -
  have "badgeRects drawBackground = []"
    by (simp add: drawBackground_def)
  moreover have "badgeRects (drawPhoto env p) = []"
    by (simp add: drawPhoto_def Let_def split: option.split)
  moreover have "badgeRects (drawPrice env cfg p) = []"
    by (simp add: drawPrice_def Let_def)
  moreover have "badgeRects (drawFrame cfg) = []"
    by (simp add: drawFrame_def)
  moreover have "badgeRects (drawDownload p d) = []"
    by (simp add: drawDownload_def)
  ultimately show ?thesis
    by (simp add: drawProduct_def badgeRects_append)
qed

lemma texts_drawPhoto:
  "texts (drawPhoto env p) =
     (case loadImage env (imageUrl p) of
        Some wh \<Rightarrow> []
      | None \<Rightarrow> [(''Sin Imagen'', 500, 500)])"
  by (simp add: drawPhoto_def Let_def split: option.split)

lemma texts_drawBadges:
  "texts (drawBadges cfg p) =
     (if showBadges cfg then
        (if bankPromo p \<noteq> [] \<or> customBankText cfg \<noteq> []
         then [(''10% OFF'', 170, 190), (''1 PAGO D'' @ [CHR 0xE9] @ ''bito'', 170, 215)]
         else [])
        @ (if num_gt (installments p) 1
           then [(numToString (installments p), 725, 187), (''SIN'', 790, 175),
                 (''INTER'' @ [CHR 0xC9] @ ''S'', 790, 198)]
           else [])
        @ (if pickup p
           then [(CHR 0xA1 # ''RETIRO GRATIS!'', 840,
                  if num_gt (installments p) 1 then 252 else 172)]
           else [])
      else [])"
  by (simp add: drawBadges_def Let_def geometry texts_append)

lemma texts_drawPrice:
  "texts (drawPrice env cfg p) =
     (if showPrice cfg then
        (formatPrice env (price p), 500, 840)
        # (if num_gt (installments p) 1
           then [(''Hasta '' @ numToString (installments p) @ ''x ''
                  @ formatPrice env (quotient (price p) (installments p))
                  @ '' cuotas sin inter'' @ [CHR 0xE9] @ ''s'', 500, 730)]
           else [])
      else [])"
  by (simp add: drawPrice_def Let_def geometry)

lemma texts_drawFrame:
  "texts (drawFrame cfg) = [(''PARDO'', 500, 65), (''WWW.PARDO.COM.AR'', 500, 935)]"
  by (simp add: drawFrame_def geometry)

lemma texts_drawProduct:
  "texts (drawProduct env cfg p d) =
     texts (drawPhoto env p) @ texts (drawBadges cfg p) @ texts (drawPrice env cfg p)
     @ texts (drawFrame cfg)"
  by (simp add: drawProduct_def texts_append drawBackground_def drawDownload_def)

lemma tryStrategies_truthy: "truthy (xmlText st) \<Longrightarrow> tryStrategies env ss st = st"
  by (cases ss) simp_all

lemma attempted_attempt:
  "attempted (attempt env s st) = attempted st @ [strategy_name s]"
  by (simp add: attempt_def Let_def split: reply.split option.split json_contents.split)

lemma successSource_attempt:
  assumes "\<not> truthy (xmlText st)" and "truthy (xmlText (attempt env s st))"
  shows "successSource (attempt env s st) = strategy_name s"
  using assms
  by (auto simp: attempt_def Let_def truthy_def
      split: reply.splits option.splits json_contents.splits if_splits list.splits)

lemma tryStrategies_prefix:
  assumes "\<forall>s'\<in>set pre. \<forall>st. \<not> truthy (xmlText st) \<longrightarrow> \<not> truthy (xmlText (attempt env s' st))"
    and "\<not> truthy (xmlText st)"
  shows "\<exists>st'. \<not> truthy (xmlText st')
           \<and> attempted st' = attempted st @ map strategy_name pre
           \<and> (\<forall>rest. tryStrategies env (pre @ rest) st = tryStrategies env rest st')"
  using assms
proof (induction pre arbitrary: st)
  case Nil
  then show ?case by auto
next
  case (Cons a pre)
  let ?st1 = "attempt env a st"
  from Cons.prems have falsy: "\<not> truthy (xmlText ?st1)" by simp
  from Cons.prems have "\<forall>s'\<in>set pre. \<forall>st. \<not> truthy (xmlText st) \<longrightarrow> \<not> truthy (xmlText (attempt env s' st))"
    by simp
  from Cons.IH [OF this falsy] obtain st' where st': "\<not> truthy (xmlText st')"
    "attempted st' = attempted ?st1 @ map strategy_name pre"
    "\<forall>rest. tryStrategies env (pre @ rest) ?st1 = tryStrategies env rest st'"
    by blast
  from st' Cons.prems(2) show ?case
    by (intro exI [of _ st']) (simp add: attempted_attempt)
qed

lemma initial_falsy: "\<not> truthy (xmlText initial_fetch_state)"
  by (simp add: initial_fetch_state_def truthy_def)

lemma acquire_not_html: "acquire env targetUrl = Inr x \<Longrightarrow> \<not> isHtml x"
  by (auto simp: acquire_def Let_def split: option.splits list.splits if_splits)

lemma htmlPage_isHtml: "isHtml htmlPage"
  by code_simp

lemma feedText_not_html: "\<not> isHtml feedText"
  by code_simp

section \<open>Claims\<close>

text \<open>
  C3, as the code has it. Cleaning keeps exactly the digits, points and commas of the
  price text, in order, turns the first comma into a point and hands the result to
  \<open>parseFloat\<close>. The empty string gives 0; a non-empty string without any digit
  gives NaN, not 0. Characters outside the kept set never change the result of a
  text that keeps at least one character. \<open>"6199999 ARS"\<close> gives 6199999 and
  \<open>"1234,50"\<close> gives 1234.5.
\<close>

theorem parsePrice_cleaning:
  "parsePrice [] = Num 0
   \<and> (p \<noteq> [] \<longrightarrow>
        parsePrice p =
          parseFloat (replaceFirst (CHR '','') (CHR ''.'')
            (filter (\<lambda>c. isDigit c \<or> c = CHR ''.'' \<or> c = CHR '','') p)))
   \<and> (p \<noteq> [] \<and> (\<forall>c\<in>set p. \<not> isDigit c) \<longrightarrow> parsePrice p = NaN)
   \<and> (filter priceChar p \<noteq> [] \<longrightarrow> parsePrice (filter priceChar p) = parsePrice p)
   \<and> parsePrice ''6199999 ARS'' = Num 6199999
   \<and> parsePrice ''1234,50'' = Num 1234.5"
proof -
  have empty: "parsePrice [] = Num 0"
    by (simp add: parsePrice_def)
  have unfolded: "p \<noteq> [] \<longrightarrow>
        parsePrice p =
          parseFloat (replaceFirst (CHR '','') (CHR ''.'')
            (filter (\<lambda>c. isDigit c \<or> c = CHR ''.'' \<or> c = CHR '','') p))"
    by (simp add: parsePrice_def cleanPrice_def priceChar_def [abs_def])
  have nan: "p \<noteq> [] \<and> (\<forall>c\<in>set p. \<not> isDigit c) \<longrightarrow> parsePrice p = NaN"
  proof
    assume h: "p \<noteq> [] \<and> (\<forall>c\<in>set p. \<not> isDigit c)"
    then have "\<forall>c\<in>set (filter priceChar p). \<not> isDigit c" by simp
    then have "\<forall>c\<in>set (cleanPrice p). \<not> isDigit c"
      unfolding cleanPrice_def by (rule replaceFirst_no_digit)
    then have "parseFloat (cleanPrice p) = NaN" by (rule parseFloat_no_digit)
    with h show "parsePrice p = NaN" by (simp add: parsePrice_def)
  qed
  have stripped: "filter priceChar p \<noteq> [] \<longrightarrow> parsePrice (filter priceChar p) = parsePrice p"
    by (auto simp: parsePrice_def cleanPrice_def)
  have ars: "parsePrice ''6199999 ARS'' = Num 6199999"
    by (simp add: parsePrice_def cleanPrice_def priceChar_def isDigit_def parseFloat_def
        digitsToNat_def digitVal_def)
  have comma: "parsePrice ''1234,50'' = Num 1234.5"
    by (simp add: parsePrice_def cleanPrice_def priceChar_def isDigit_def parseFloat_def
        digitsToNat_def digitVal_def)
  show ?thesis
    by (intro conjI) (rule empty unfolded nan stripped ars comma)+
qed

theorem parsePrice_cleaning_witness:
  "''ARS'' \<noteq> [] \<and> list_all (\<lambda>c. \<not> isDigit c) ''ARS'' \<and> parsePrice ''ARS'' = NaN
   \<and> filter priceChar ''$ 12.5'' \<noteq> [] \<and> parsePrice ''12.5'' = parsePrice ''$ 12.5''"
proof -
  have a: "''ARS'' \<noteq> [] \<and> (\<forall>c\<in>set ''ARS''. \<not> isDigit c)"
    by (simp add: isDigit_def)
  have b: "filter priceChar ''$ 12.5'' = ''12.5''"
    by (simp add: priceChar_def isDigit_def)
  from a parsePrice_cleaning [of "''ARS''"] have c: "parsePrice ''ARS'' = NaN" by blast
  from b parsePrice_cleaning [of "''$ 12.5''"]
  have d: "parsePrice ''12.5'' = parsePrice ''$ 12.5''" by simp
  have a': "''ARS'' \<noteq> [] \<and> list_all (\<lambda>c. \<not> isDigit c) ''ARS''"
    by (simp add: isDigit_def)
  from a' b c d show ?thesis by simp
qed

text \<open>
  C3 as stated fails: the price text \<open>"ARS"\<close> is not empty, cleaning leaves the
  empty string, and \<open>parseFloat("")\<close> is NaN, not 0.
\<close>

theorem parsePrice_unparseable_counterexample:
  "parsePrice ''ARS'' \<noteq> Num 0"
  by (simp add: parsePrice_def cleanPrice_def priceChar_def isDigit_def parseFloat_def)

text \<open>
  C2, as the code has it. The effective price is the parsed sale price whenever the
  sale-price lookup gives a non-empty text (whatever it parses to, 0 included), and
  the parsed list price otherwise. \<open>listPrice\<close> is the parsed list price when both
  lookups give a non-empty text, and 0 otherwise; so an element with a list price and
  no sale price gets \<open>price\<close> = list price and \<open>listPrice\<close> = 0.
\<close>

theorem effective_price:
  "price (mapItem env i item) =
     (if getText item [''sale_price'', ''g:sale_price''] \<noteq> []
      then parsePrice (getText item [''sale_price'', ''g:sale_price''])
      else parsePrice (getText item [''price'', ''g:price'']))
   \<and> listPrice (mapItem env i item) =
     (if getText item [''sale_price'', ''g:sale_price''] \<noteq> []
         \<and> getText item [''price'', ''g:price''] \<noteq> []
      then parsePrice (getText item [''price'', ''g:price''])
      else Num 0)
   \<and> (getText item [''sale_price'', ''g:sale_price''] = [] \<longrightarrow>
        price (mapItem env i item) = parsePrice (getText item [''price'', ''g:price''])
        \<and> listPrice (mapItem env i item) = Num 0)"
  by (simp add: mapItem_price mapItem_listPrice)

theorem effective_price_witness:
  "getText tvItem [''sale_price'', ''g:sale_price''] = []
   \<and> price (mapItem demo_env 0 tvItem) = Num 6199999
   \<and> listPrice (mapItem demo_env 0 tvItem) = Num 0"
proof -
  have s: "getText tvItem [''sale_price'', ''g:sale_price''] = []"
    by (simp add: tvItem_def dom_eval)
  have p: "getText tvItem [''price'', ''g:price''] = ''6199999 ARS''"
    by (simp add: tvItem_def dom_eval)
  have v: "parsePrice ''6199999 ARS'' = Num 6199999"
    by (simp add: num_eval)
  from effective_price [of demo_env 0 tvItem] s p v show ?thesis by simp
qed

text \<open>
  C2 as stated fails: with a sale price of \<open>"0 ARS"\<close> and a list price of
  \<open>"100 ARS"\<close> the sale-price text is not empty, so the effective price is the
  parsed sale price 0, not the list price 100.
\<close>

theorem effective_price_counterexample:
  "getText saleZeroItem [''sale_price'', ''g:sale_price''] = ''0 ARS''
   \<and> parsePrice ''0 ARS'' = Num 0
   \<and> parsePrice (getText saleZeroItem [''price'', ''g:price'']) = Num 100
   \<and> price (mapItem demo_env 0 saleZeroItem) = Num 0
   \<and> price (mapItem demo_env 0 saleZeroItem)
       \<noteq> parsePrice (getText saleZeroItem [''price'', ''g:price''])"
proof -
  have s: "getText saleZeroItem [''sale_price'', ''g:sale_price''] = ''0 ARS''"
    by (simp add: saleZeroItem_def dom_eval)
  have p: "getText saleZeroItem [''price'', ''g:price''] = ''100 ARS''"
    by (simp add: saleZeroItem_def dom_eval)
  have z: "parsePrice ''0 ARS'' = Num 0"
    by (simp add: num_eval)
  have h: "parsePrice ''100 ARS'' = Num 100"
    by (simp add: num_eval)
  have m: "price (mapItem demo_env 0 saleZeroItem) = Num 0"
    by (simp add: mapItem_price s z)
  from s p z h m show ?thesis by simp
qed

text \<open>
  C6. Once the parse check has passed, the product elements are those named
  \<open>item\<close>; if there is none, those named \<open>entry\<close>; if there is none either, those
  named \<open>product\<close>. When all three searches are empty normalization fails with
  the no-products error, and it fails with that error in no other case.
\<close>

theorem locateItems_order:
  "locateItems doc =
     (if docElementsByTagName doc ''item'' \<noteq> [] then docElementsByTagName doc ''item''
      else if docElementsByTagName doc ''entry'' \<noteq> [] then docElementsByTagName doc ''entry''
      else docElementsByTagName doc ''product'')
   \<and> (docElementsByTagName doc ''parsererror'' = [] \<longrightarrow>
        (normalizeDoc env doc = Inl NoProductsFound \<longleftrightarrow>
           docElementsByTagName doc ''item'' = [] \<and> docElementsByTagName doc ''entry'' = []
           \<and> docElementsByTagName doc ''product'' = []))"
  by (simp add: locateItems_def normalizeDoc_def Let_def)

theorem locateItems_order_witness:
  "docElementsByTagName entryDoc ''item'' = []
   \<and> locateItems entryDoc = [Element ''entry'' [Element ''title'' [Text ''Radio'']]]
   \<and> docElementsByTagName emptyDoc ''parsererror'' = []
   \<and> normalizeDoc demo_env emptyDoc = Inl NoProductsFound"
proof -
  have a: "docElementsByTagName entryDoc ''item'' = []"
    by (simp add: entryDoc_def docElementsByTagName_def)
  have b: "docElementsByTagName entryDoc ''entry'' = [Element ''entry'' [Element ''title'' [Text ''Radio'']]]"
    by (simp add: entryDoc_def docElementsByTagName_def)
  have c: "docElementsByTagName emptyDoc ''parsererror'' = []"
    "docElementsByTagName emptyDoc ''item'' = []"
    "docElementsByTagName emptyDoc ''entry'' = []"
    "docElementsByTagName emptyDoc ''product'' = []"
    by (simp_all add: emptyDoc_def docElementsByTagName_def)
  from locateItems_order [of entryDoc] a b
  have d: "locateItems entryDoc = [Element ''entry'' [Element ''title'' [Text ''Radio'']]]"
    by simp
  from locateItems_order [of emptyDoc demo_env] c
  have e: "normalizeDoc demo_env emptyDoc = Inl NoProductsFound"
    by simp
  from a c(1) d e show ?thesis by simp
qed

text \<open>
  C7, as the code has it. A mapped record is kept exactly when its price is greater
  than 0 or its name is not the sentinel \<open>"Sin Nombre"\<close>; so the records dropped are
  those with the sentinel name whose price is NaN or at most 0. The result is the
  kept records in feed order, and when none is kept the operation fails with the
  empty-after-filtering error.
\<close>

theorem valid_products_filter:
  "(validProduct p \<longleftrightarrow> num_gt (price p) 0 \<or> name p \<noteq> ''Sin Nombre'')
   \<and> (\<not> validProduct p \<longleftrightarrow>
        (price p = NaN \<or> num_le (price p) 0) \<and> name p = ''Sin Nombre'')
   \<and> (docElementsByTagName doc ''parsererror'' = [] \<and> locateItems doc \<noteq> [] \<longrightarrow>
        normalizeDoc env doc =
          (if filter validProduct (mappedProducts env (locateItems doc)) = []
           then Inl EmptyAfterFiltering
           else Inr (filter validProduct (mappedProducts env (locateItems doc)))))"
proof (intro conjI)
  show "validProduct p \<longleftrightarrow> num_gt (price p) 0 \<or> name p \<noteq> ''Sin Nombre''"
    by (simp add: validProduct_def)
  show "\<not> validProduct p \<longleftrightarrow> (price p = NaN \<or> num_le (price p) 0) \<and> name p = ''Sin Nombre''"
    by (simp add: validProduct_iff)
  show "docElementsByTagName doc ''parsererror'' = [] \<and> locateItems doc \<noteq> [] \<longrightarrow>
        normalizeDoc env doc =
          (if filter validProduct (mappedProducts env (locateItems doc)) = []
           then Inl EmptyAfterFiltering
           else Inr (filter validProduct (mappedProducts env (locateItems doc))))"
    using normalizeDoc_unfold [of doc env] by blast
qed

theorem valid_products_filter_witness:
  "docElementsByTagName tvDoc ''parsererror'' = [] \<and> locateItems tvDoc = [tvItem]
   \<and> validProduct (mapItem demo_env 0 tvItem)
   \<and> normalizeDoc demo_env tvDoc = Inr [mapItem demo_env 0 tvItem]"
proof -
  have a: "docElementsByTagName tvDoc ''parsererror'' = []"
    by (simp add: tvDoc_def tvItem_def docElementsByTagName_def)
  have b: "locateItems tvDoc = [tvItem]"
    by (simp add: locateItems_def tvDoc_def tvItem_def docElementsByTagName_def)
  have t: "getText tvItem [''title'', ''name''] = ''Smart TV''"
    by (simp add: tvItem_def dom_eval)
  have n: "name (mapItem demo_env 0 tvItem) \<noteq> ''Sin Nombre''"
    by (simp add: mapItem_name t)
  from valid_products_filter [of "mapItem demo_env 0 tvItem"] n
  have v: "validProduct (mapItem demo_env 0 tvItem)" by blast
  have m: "mappedProducts demo_env [tvItem] = [mapItem demo_env 0 tvItem]"
    by (simp add: mappedProducts_def)
  from valid_products_filter [of "mapItem demo_env 0 tvItem" tvDoc demo_env] a b
  have "normalizeDoc demo_env tvDoc = Inr [mapItem demo_env 0 tvItem]"
    by (simp add: m v)
  with a b v show ?thesis by simp
qed

text \<open>
  C7 as stated fails: the element \<open><item><price>ARS</price></item>\<close> maps to a record
  with the sentinel name and the price NaN. \<open>NaN <= 0\<close> is false, so the record is
  not one of those with \<open>price <= 0\<close> and the sentinel name; yet it is dropped, and
  the feed that holds only this element fails with the empty-after-filtering error.
\<close>

theorem valid_products_filter_counterexample:
  "price (mapItem demo_env 0 nanItem) = NaN
   \<and> name (mapItem demo_env 0 nanItem) = ''Sin Nombre''
   \<and> \<not> num_le (price (mapItem demo_env 0 nanItem)) 0
   \<and> \<not> validProduct (mapItem demo_env 0 nanItem)
   \<and> normalizeDoc demo_env nanDoc = Inl EmptyAfterFiltering"
proof -
  have s: "getText nanItem [''sale_price'', ''g:sale_price''] = []"
    by (simp add: nanItem_def dom_eval)
  have p: "getText nanItem [''price'', ''g:price''] = ''ARS''"
    by (simp add: nanItem_def dom_eval)
  have t: "getText nanItem [''title'', ''name''] = []"
    by (simp add: nanItem_def dom_eval)
  have v: "parsePrice ''ARS'' = NaN"
    by (simp add: num_eval)
  have a: "price (mapItem demo_env 0 nanItem) = NaN"
    by (simp add: mapItem_price s p v)
  have b: "name (mapItem demo_env 0 nanItem) = ''Sin Nombre''"
    by (simp add: mapItem_name t)
  have c: "\<not> validProduct (mapItem demo_env 0 nanItem)"
    by (simp add: validProduct_def a b num_gt_def)
  have d: "docElementsByTagName nanDoc ''parsererror'' = []"
    by (simp add: nanDoc_def nanItem_def docElementsByTagName_def)
  have e: "locateItems nanDoc = [nanItem]"
    by (simp add: locateItems_def nanDoc_def nanItem_def docElementsByTagName_def)
  have m: "mappedProducts demo_env [nanItem] = [mapItem demo_env 0 nanItem]"
    by (simp add: mappedProducts_def)
  have f: "normalizeDoc demo_env nanDoc = Inl EmptyAfterFiltering"
    using normalizeDoc_unfold [of nanDoc demo_env] d e by (simp add: m c)
  from a b c f show ?thesis by (simp add: num_le_def)
qed

text \<open>
  C10. When the id lookup of two product elements gives nothing, each Product gets
  the random string drawn for it as \<open>id\<close> and the literal \<open>"N/A"\<close> as \<open>sku\<close>; the
  export of either one is saved as \<open>"pardo_N/A.jpg"\<close>, so the two file names are
  the same.
\<close>

theorem idless_export_name:
  assumes "getText item [''id'', ''sku'', ''g:id''] = []"
    and "getText item' [''id'', ''sku'', ''g:id''] = []"
  shows "id_str (mapItem env i item) = randomString env i
         \<and> sku (mapItem env i item) = ''N/A''
         \<and> exportName (mapItem env i item) = ''pardo_N/A.jpg''
         \<and> last (drawProduct env cfg (mapItem env i item) True) = SaveAs ''pardo_N/A.jpg''
         \<and> exportName (mapItem env j item') = exportName (mapItem env i item)"
  using assms
  by (simp add: mapItem_id_str mapItem_sku exportName_def drawProduct_def drawDownload_def)

theorem idless_export_name_witness:
  "getText radioItem [''id'', ''sku'', ''g:id''] = []
   \<and> getText lampItem [''id'', ''sku'', ''g:id''] = []
   \<and> name (mapItem demo_env 0 radioItem) \<noteq> name (mapItem demo_env 1 lampItem)
   \<and> id_str (mapItem demo_env 0 radioItem) = ''0.0''
   \<and> sku (mapItem demo_env 0 radioItem) = ''N/A''
   \<and> exportName (mapItem demo_env 0 radioItem) = ''pardo_N/A.jpg''
   \<and> exportName (mapItem demo_env 1 lampItem) = ''pardo_N/A.jpg''"
proof -
  have a: "getText radioItem [''id'', ''sku'', ''g:id''] = []"
    by (simp add: radioItem_def dom_eval)
  have b: "getText lampItem [''id'', ''sku'', ''g:id''] = []"
    by (simp add: lampItem_def dom_eval)
  have c: "getText radioItem [''title'', ''name''] = ''Radio''"
    by (simp add: radioItem_def dom_eval)
  have d: "getText lampItem [''title'', ''name''] = ''Lamp''"
    by (simp add: lampItem_def dom_eval)
  have n: "name (mapItem demo_env 0 radioItem) \<noteq> name (mapItem demo_env 1 lampItem)"
    by (simp add: mapItem_name c d)
  have r: "randomString demo_env 0 = ''0.0''"
    by (simp add: demo_env_def natToString.simps)
  from idless_export_name [OF a b, of demo_env 0 demo_cfg 1] idless_export_name [OF b a, of demo_env 1 demo_cfg 0]
  show ?thesis using a b n r by simp
qed

text \<open>
  C4, as the code has it. For a feed that passes the parse check and holds a product
  element whose mapped record survives the filter, normalization returns a non-empty
  sequence. Every Product in it comes from one of the located elements; its price is
  NaN or at least 0 (never negative), and its \<open>installments\<close> is what the
  installment fields of its element parse to. That value is 1 when the element has
  no installment element and no flat installment text, and at least 0 whenever it
  has no installment element; a nested \<open>months\<close> text can give any integer or NaN.
\<close>

theorem normalize_invariants:
  assumes "docElementsByTagName doc ''parsererror'' = []"
    and "j < length (locateItems doc)"
    and "validProduct (mapItem env j (locateItems doc ! j))"
  shows "\<exists>ps. normalizeDoc env doc = Inr ps \<and> ps \<noteq> []
           \<and> (\<forall>p\<in>set ps.
                 (price p = NaN \<or> num_ge (price p) 0)
                 \<and> (\<exists>k<length (locateItems doc).
                       p = mapItem env k (locateItems doc ! k)
                       \<and> installments p = installmentsOf (locateItems doc ! k)
                       \<and> (getElementsByTagName (locateItems doc ! k) ''g:installment'' = []
                            \<and> getElementsByTagName (locateItems doc ! k) ''installment'' = []
                          \<longrightarrow> num_ge (installments p) 0
                              \<and> (getText (locateItems doc ! k) [''installment'', ''installments''] = []
                                   \<longrightarrow> installments p = Num 1))))"
proof -
  let ?items = "locateItems doc"
  let ?ps = "filter validProduct (mappedProducts env ?items)"
  from assms(2) have items: "?items \<noteq> []" by auto
  from assms(2) have "mapItem env j (?items ! j) \<in> set (mappedProducts env ?items)"
    using mappedProducts_nth [of j ?items env] nth_mem [of j "mappedProducts env ?items"]
    by (simp add: length_mappedProducts)
  with assms(3) have ne: "?ps \<noteq> []"
    by (auto simp: filter_empty_conv)
  with assms(1) items have res: "normalizeDoc env doc = Inr ?ps"
    by (simp add: normalizeDoc_unfold)
  have each: "(price p = NaN \<or> num_ge (price p) 0)
      \<and> (\<exists>k<length ?items.
            p = mapItem env k (?items ! k)
            \<and> installments p = installmentsOf (?items ! k)
            \<and> (getElementsByTagName (?items ! k) ''g:installment'' = []
                 \<and> getElementsByTagName (?items ! k) ''installment'' = []
               \<longrightarrow> num_ge (installments p) 0
                   \<and> (getText (?items ! k) [''installment'', ''installments''] = []
                        \<longrightarrow> installments p = Num 1)))"
    if "p \<in> set ?ps" for p
  proof -
    from that have "p \<in> set (mappedProducts env ?items)" by simp
    then obtain k where k: "k < length ?items" and p: "p = mapItem env k (?items ! k)"
      using mappedProducts_member by blast
    have price: "price p = NaN \<or> num_ge (price p) 0"
      unfolding p by (rule mapItem_price_not_negative)
    have inst: "installments p = installmentsOf (?items ! k)"
      unfolding p by (rule mapItem_installments)
    have flat: "getElementsByTagName (?items ! k) ''g:installment'' = []
                 \<and> getElementsByTagName (?items ! k) ''installment'' = []
               \<longrightarrow> num_ge (installments p) 0
                   \<and> (getText (?items ! k) [''installment'', ''installments''] = []
                        \<longrightarrow> installments p = Num 1)"
      unfolding inst using installmentsOf_flat installmentsOf_default by blast
    from k p price inst flat show ?thesis by blast
  qed
  from res ne each show ?thesis by blast
qed

theorem normalize_invariants_witness:
  "docElementsByTagName tvDoc ''parsererror'' = []
   \<and> 0 < length (locateItems tvDoc)
   \<and> validProduct (mapItem demo_env 0 (locateItems tvDoc ! 0))
   \<and> (\<exists>ps. normalizeDoc demo_env tvDoc = Inr ps \<and> ps \<noteq> []
           \<and> list_all (\<lambda>p. price p = NaN \<or> num_ge (price p) 0) ps)"
proof -
  have a: "docElementsByTagName tvDoc ''parsererror'' = []"
    by (simp add: tvDoc_def tvItem_def docElementsByTagName_def)
  have b: "locateItems tvDoc = [tvItem]"
    by (simp add: locateItems_def tvDoc_def tvItem_def docElementsByTagName_def)
  have t: "getText tvItem [''title'', ''name''] = ''Smart TV''"
    by (simp add: tvItem_def dom_eval)
  have v: "validProduct (mapItem demo_env 0 tvItem)"
    by (simp add: validProduct_def mapItem_name t)
  have c: "0 < length (locateItems tvDoc)" and d: "validProduct (mapItem demo_env 0 (locateItems tvDoc ! 0))"
    using b v by simp_all
  from normalize_invariants [OF a c d]
  have "\<exists>ps. normalizeDoc demo_env tvDoc = Inr ps \<and> ps \<noteq> []
           \<and> list_all (\<lambda>p. price p = NaN \<or> num_ge (price p) 0) ps"
    by (auto simp: list_all_iff)
  with a c d show ?thesis by blast
qed

text \<open>
  C4 as stated fails: a titled product priced 100 whose installment element gives
  \<open><months>0</months>\<close> is kept by the filter, and its \<open>installments\<close> is 0.
\<close>

theorem normalize_invariants_counterexample:
  "normalizeDoc demo_env zeroMonthsDoc = Inr [zeroMonthsProduct]
   \<and> installments zeroMonthsProduct = Num 0
   \<and> \<not> num_ge (installments zeroMonthsProduct) 1"
proof -
  have m: "mapItem demo_env 0 zeroMonthsItem = zeroMonthsProduct"
    by (simp add: zeroMonthsItem_def zeroMonthsProduct_def mapItem_def installmentsOf_def
        dom_eval num_eval num_gt_def Let_def)
  have d: "docElementsByTagName zeroMonthsDoc ''parsererror'' = []"
    by (simp add: zeroMonthsDoc_def zeroMonthsItem_def docElementsByTagName_def)
  have e: "locateItems zeroMonthsDoc = [zeroMonthsItem]"
    by (simp add: locateItems_def zeroMonthsDoc_def zeroMonthsItem_def docElementsByTagName_def)
  have p: "mappedProducts demo_env [zeroMonthsItem] = [zeroMonthsProduct]"
    by (simp add: mappedProducts_def m)
  have v: "validProduct zeroMonthsProduct"
    by (simp add: validProduct_def zeroMonthsProduct_def)
  have f: "normalizeDoc demo_env zeroMonthsDoc = Inr [zeroMonthsProduct]"
    using normalizeDoc_unfold [of zeroMonthsDoc demo_env] d e by (simp add: p v)
  have g: "installments zeroMonthsProduct = Num 0"
    by (simp add: zeroMonthsProduct_def)
  from f g show ?thesis by (simp add: num_ge_def)
qed

text \<open>
  C8, as the code has it. With \<open>installments\<close> equal to 1 the drawing holds neither
  the installment badge nor the breakdown line. With \<open>installments\<close> equal to 12
  the badge, with the count \<open>"12"\<close>, is drawn exactly when badges are enabled, and
  the breakdown line, which starts \<open>"Hasta 12x "\<close>, exactly when the price overlay is
  enabled.
\<close>

theorem installment_elements:
  "(installments p = Num 1 \<longrightarrow>
      (710, 150, 260, 70) \<notin> set (badgeRects (drawProduct env cfg p d))
      \<and> (\<forall>t y. (t, 725, y) \<notin> set (texts (drawProduct env cfg p d)))
      \<and> (\<forall>t. (t, 500, 730) \<notin> set (texts (drawProduct env cfg p d))))
   \<and> (installments p = Num 12 \<longrightarrow>
      ((710, 150, 260, 70) \<in> set (badgeRects (drawProduct env cfg p d)) \<longleftrightarrow> showBadges cfg)
      \<and> ((''12'', 725, 187) \<in> set (texts (drawProduct env cfg p d)) \<longleftrightarrow> showBadges cfg)
      \<and> ((''Hasta 12x '' @ formatPrice env (quotient (price p) (Num 12))
            @ '' cuotas sin inter'' @ [CHR 0xE9] @ ''s'', 500, 730)
           \<in> set (texts (drawProduct env cfg p d)) \<longleftrightarrow> showPrice cfg))"
proof (intro conjI impI)
  assume one: "installments p = Num 1"
  then have no: "\<not> num_gt (installments p) 1" by (simp add: num_gt_def)
  show "(710, 150, 260, 70) \<notin> set (badgeRects (drawProduct env cfg p d))"
    using no by (simp add: badgeRects_drawProduct badgeRects_drawBadges)
  show "\<forall>t y. (t, 725, y) \<notin> set (texts (drawProduct env cfg p d))"
    using no
    by (simp add: texts_drawProduct texts_drawPhoto texts_drawBadges texts_drawPrice
        texts_drawFrame split: option.split)
  show "\<forall>t. (t, 500, 730) \<notin> set (texts (drawProduct env cfg p d))"
    using no
    by (simp add: texts_drawProduct texts_drawPhoto texts_drawBadges texts_drawPrice
        texts_drawFrame split: option.split)
next
  assume twelve: "installments p = Num 12"
  then have yes: "num_gt (installments p) 1" by (simp add: num_gt_def)
  have str: "numToString (Num 12) = ''12''"
    by (simp add: numToString_def natToString.simps)
  show "(710, 150, 260, 70) \<in> set (badgeRects (drawProduct env cfg p d)) \<longleftrightarrow> showBadges cfg"
    using yes by (simp add: badgeRects_drawProduct badgeRects_drawBadges)
  show "(''12'', 725, 187) \<in> set (texts (drawProduct env cfg p d)) \<longleftrightarrow> showBadges cfg"
    using yes twelve str
    by (simp add: texts_drawProduct texts_drawPhoto texts_drawBadges texts_drawPrice
        texts_drawFrame split: option.split)
  show "(''Hasta 12x '' @ formatPrice env (quotient (price p) (Num 12))
            @ '' cuotas sin inter'' @ [CHR 0xE9] @ ''s'', 500, 730)
           \<in> set (texts (drawProduct env cfg p d)) \<longleftrightarrow> showPrice cfg"
    using yes twelve str
    by (simp add: texts_drawProduct texts_drawPhoto texts_drawBadges texts_drawPrice
        texts_drawFrame split: option.split)
qed

theorem installment_elements_witness:
  "installments cashProduct = Num 1
   \<and> (710, 150, 260, 70) \<notin> set (badgeRects (drawProduct demo_env demo_cfg cashProduct False))
   \<and> installments tvProduct = Num 12
   \<and> showBadges demo_cfg \<and> showPrice demo_cfg
   \<and> (710, 150, 260, 70) \<in> set (badgeRects (drawProduct demo_env demo_cfg tvProduct False))
   \<and> (''12'', 725, 187) \<in> set (texts (drawProduct demo_env demo_cfg tvProduct False))
   \<and> (''Hasta 12x '' @ formatPrice demo_env (quotient (price tvProduct) (Num 12))
         @ '' cuotas sin inter'' @ [CHR 0xE9] @ ''s'', 500, 730)
        \<in> set (texts (drawProduct demo_env demo_cfg tvProduct False))"
proof -
  have a: "installments cashProduct = Num 1"
    by (simp add: cashProduct_def)
  have b: "installments tvProduct = Num 12"
    by (simp add: tvProduct_def)
  have c: "showBadges demo_cfg \<and> showPrice demo_cfg"
    by (simp add: demo_cfg_def)
  from installment_elements [of cashProduct demo_env demo_cfg False] a
  have d: "(710, 150, 260, 70) \<notin> set (badgeRects (drawProduct demo_env demo_cfg cashProduct False))"
    by blast
  from installment_elements [of tvProduct demo_env demo_cfg False] b c
  have e: "(710, 150, 260, 70) \<in> set (badgeRects (drawProduct demo_env demo_cfg tvProduct False))
   \<and> (''12'', 725, 187) \<in> set (texts (drawProduct demo_env demo_cfg tvProduct False))
   \<and> (''Hasta 12x '' @ formatPrice demo_env (quotient (price tvProduct) (Num 12))
         @ '' cuotas sin inter'' @ [CHR 0xE9] @ ''s'', 500, 730)
        \<in> set (texts (drawProduct demo_env demo_cfg tvProduct False))"
    by blast
  from a b c d e show ?thesis by blast
qed

text \<open>
  C8 as stated fails: with both check boxes cleared a product with twelve
  installments is drawn without any badge and without the breakdown line; the only
  texts are the placeholder and the two brand lines.
\<close>

theorem installment_elements_counterexample:
  "installments tvProduct = Num 12
   \<and> badgeRects (drawProduct demo_env plain_cfg tvProduct False) = []
   \<and> texts (drawProduct demo_env plain_cfg tvProduct False) =
       [(''Sin Imagen'', 500, 500), (''PARDO'', 500, 65), (''WWW.PARDO.COM.AR'', 500, 935)]"
  by (simp add: badgeRects_drawProduct badgeRects_drawBadges texts_drawProduct texts_drawPhoto
      texts_drawBadges texts_drawPrice texts_drawFrame plain_cfg_def demo_cfg_def tvProduct_def
      demo_env_def)

text \<open>
  C9. With badges enabled and \<open>pickup\<close> set, the pickup badge is the 260 by 40
  rectangle at the right. When \<open>installments > 1\<close> the installment badge is drawn at
  (710, 150) with height 70 and the pickup badge below it at (710, 230); otherwise
  (installments at most 1, or NaN) no installment badge is drawn and the pickup badge
  takes its place at (710, 150). The rounded rectangles of a drawing are pairwise
  distinct and no two of them overlap.
\<close>

theorem pickup_badge_slot:
  assumes "showBadges cfg" and "pickup p"
  shows "(num_gt (installments p) 1 \<longrightarrow>
            (710, 150, 260, 70) \<in> set (badgeRects (drawProduct env cfg p d))
            \<and> (710, 230, 260, 40) \<in> set (badgeRects (drawProduct env cfg p d))
            \<and> (710, 150, 260, 40) \<notin> set (badgeRects (drawProduct env cfg p d)))
         \<and> (num_le (installments p) 1 \<or> installments p = NaN \<longrightarrow>
            (710, 150, 260, 40) \<in> set (badgeRects (drawProduct env cfg p d))
            \<and> (710, 150, 260, 70) \<notin> set (badgeRects (drawProduct env cfg p d))
            \<and> (710, 230, 260, 40) \<notin> set (badgeRects (drawProduct env cfg p d)))
         \<and> distinct (badgeRects (drawProduct env cfg p d))
         \<and> (\<forall>a\<in>set (badgeRects (drawProduct env cfg p d)).
              \<forall>b\<in>set (badgeRects (drawProduct env cfg p d)). a \<noteq> b \<longrightarrow> \<not> overlap a b)"
proof (cases "num_gt (installments p) 1")
  case True
  then have "\<not> (num_le (installments p) 1 \<or> installments p = NaN)"
    by (cases "installments p") (auto simp: num_gt_def num_le_def)
  with True assms show ?thesis
    by (simp add: badgeRects_drawProduct badgeRects_drawBadges)
next
  case False
  with assms show ?thesis
    by (simp add: badgeRects_drawProduct badgeRects_drawBadges)
qed

theorem pickup_badge_slot_witness:
  "showBadges demo_cfg \<and> pickup tvProduct \<and> num_gt (installments tvProduct) 1
   \<and> (710, 150, 260, 70) \<in> set (badgeRects (drawProduct demo_env demo_cfg tvProduct False))
   \<and> (710, 230, 260, 40) \<in> set (badgeRects (drawProduct demo_env demo_cfg tvProduct False))
   \<and> pickup cashProduct \<and> num_le (installments cashProduct) 1
   \<and> (710, 150, 260, 40) \<in> set (badgeRects (drawProduct demo_env demo_cfg cashProduct False))
   \<and> (710, 150, 260, 70) \<notin> set (badgeRects (drawProduct demo_env demo_cfg cashProduct False))"
proof -
  have a: "showBadges demo_cfg" by (simp add: demo_cfg_def)
  have b: "pickup tvProduct" "num_gt (installments tvProduct) 1"
    by (simp_all add: tvProduct_def num_gt_def)
  have c: "pickup cashProduct" "num_le (installments cashProduct) 1"
    by (simp_all add: cashProduct_def tvProduct_def num_le_def)
  from pickup_badge_slot [OF a b(1), of demo_env False] b(2)
  have d: "(710, 150, 260, 70) \<in> set (badgeRects (drawProduct demo_env demo_cfg tvProduct False))
   \<and> (710, 230, 260, 40) \<in> set (badgeRects (drawProduct demo_env demo_cfg tvProduct False))"
    by blast
  from pickup_badge_slot [OF a c(1), of demo_env False] c(2)
  have e: "(710, 150, 260, 40) \<in> set (badgeRects (drawProduct demo_env demo_cfg cashProduct False))
   \<and> (710, 150, 260, 70) \<notin> set (badgeRects (drawProduct demo_env demo_cfg cashProduct False))"
    by blast
  from a b c d e show ?thesis by blast
qed

text \<open>
  C5 at the failing input: badges enabled, no promotion text on the product, and
  \<open>"20% OFF VISA"\<close> typed as the promotion text. The badge is drawn at (30, 150),
  280 by 80, with the headline \<open>"10% OFF"\<close>; its second line is the fixed text
  "1 PAGO Debito" (with an acute accent on the e), and the typed text is drawn nowhere.
\<close>

theorem bank_badge_second_line:
  "showBadges visa_cfg \<and> bankPromo tvProduct = [] \<and> customBankText visa_cfg = ''20% OFF VISA''
   \<and> (30, 150, 280, 80) \<in> set (badgeRects (drawProduct demo_env visa_cfg tvProduct False))
   \<and> texts (drawBadges visa_cfg tvProduct) =
       [(''10% OFF'', 170, 190),
        (''1 PAGO D'' @ [CHR 0xE9] @ ''bito'', 170, 215),
        (''12'', 725, 187),
        (''SIN'', 790, 175),
        (''INTER'' @ [CHR 0xC9] @ ''S'', 790, 198),
        (CHR 0xA1 # ''RETIRO GRATIS!'', 840, 252)]
   \<and> ''20% OFF VISA'' \<notin> set (map fst (texts (drawProduct demo_env visa_cfg tvProduct False)))"
proof -
  have str: "numToString (Num 12) = ''12''"
    by (simp add: numToString_def natToString.simps)
  have fmt: "formatPrice demo_env (Num 6199999) = ''$ 6199999''"
    by (simp add: demo_env_def natToString.simps)
  have img: "loadImage demo_env (imageUrl tvProduct) = None"
    by (simp add: demo_env_def)
  have ph: "texts (drawPhoto demo_env tvProduct) = [(''Sin Imagen'', 500, 500)]"
    by (simp add: texts_drawPhoto img)
  show ?thesis
    by (simp add: badgeRects_drawProduct badgeRects_drawBadges texts_drawProduct
        ph [unfolded tvProduct_def] texts_drawBadges texts_drawPrice texts_drawFrame visa_cfg_def
        demo_cfg_def tvProduct_def num_gt_def str fmt)
qed

text \<open>
  C1, as the code has it. The loop stops at the first strategy, in the fixed order,
  whose attempt leaves a non-empty body in \<open>xmlText\<close>, and the HTML check comes after
  the loop. So when that body begins with or contains an HTML-document marker, no
  later strategy is attempted and the whole fetch fails with the invalid-content
  error that names this strategy. A body that the HTML check rejects is never
  accepted as output.
\<close>

theorem html_body_fails_fetch:
  assumes "getXmlUrl clusterInput = targetUrl" and "targetUrl \<noteq> []"
    and "strategies env targetUrl = pre @ s # post"
    and "\<forall>s'\<in>set pre. \<forall>st. \<not> truthy (xmlText st) \<longrightarrow> \<not> truthy (xmlText (attempt env s' st))"
    and "\<forall>st. \<not> truthy (xmlText st) \<longrightarrow> xmlText (attempt env s st) = Some b"
    and "b \<noteq> []" and "isHtml b"
  shows "attempted (tryStrategies env (strategies env targetUrl) initial_fetch_state)
           = map strategy_name pre @ [strategy_name s]
         \<and> acquire env targetUrl = Inl (InvalidContent (strategy_name s))
         \<and> fetchClusterData env clusterInput st0
             = \<lparr> products = [], selectedProduct = None,
                 errorMsg = Some (InvalidContent (strategy_name s)) \<rparr>
         \<and> (\<forall>env' url x. acquire env' url = Inr x \<longrightarrow> \<not> isHtml x)"
proof -
  from tryStrategies_prefix [OF assms(4) initial_falsy]
  obtain st' where falsy: "\<not> truthy (xmlText st')"
    and log: "attempted st' = attempted initial_fetch_state @ map strategy_name pre"
    and run: "\<forall>rest. tryStrategies env (pre @ rest) initial_fetch_state = tryStrategies env rest st'"
    by blast
  let ?fin = "attempt env s st'"
  from assms(5) falsy have body: "xmlText ?fin = Some b" by simp
  with assms(6) have truthy: "truthy (xmlText ?fin)"
    by (cases b) (simp_all add: truthy_def)
  from run falsy truthy have fin: "tryStrategies env (strategies env targetUrl) initial_fetch_state = ?fin"
    by (simp add: assms(3) tryStrategies_truthy)
  have src: "successSource ?fin = strategy_name s"
    using falsy truthy by (rule successSource_attempt)
  have a: "attempted (tryStrategies env (strategies env targetUrl) initial_fetch_state)
           = map strategy_name pre @ [strategy_name s]"
    using log by (simp add: fin attempted_attempt) (simp add: initial_fetch_state_def)
  from assms(6) obtain c r where b: "b = c # r" by (cases b) auto
  have acq: "acquire env targetUrl = Inl (InvalidContent (strategy_name s))"
    using assms(7) by (simp add: acquire_def fin body src b)
  have all: "fetchClusterData env clusterInput st0
             = \<lparr> products = [], selectedProduct = None,
                 errorMsg = Some (InvalidContent (strategy_name s)) \<rparr>"
    using assms(1,2) by (simp add: fetchClusterData_def loadFeed_def acq)
  from a acq all acquire_not_html show ?thesis by blast
qed

theorem html_body_fails_fetch_witness:
  "getXmlUrl ''1629'' = feedUrl \<and> feedUrl \<noteq> []
   \<and> isHtml htmlPage \<and> htmlPage \<noteq> []
   \<and> attempted (tryStrategies html_env (strategies html_env feedUrl) initial_fetch_state)
       = [''AllOrigins Raw'']
   \<and> acquire html_env feedUrl = Inl (InvalidContent ''AllOrigins Raw'')"
proof -
  let ?s = "\<lparr> strategy_name = ''AllOrigins Raw'',
         strategy_url = ''https://api.allorigins.win/raw?url='' @ encodeURIComponent feedUrl,
         isWrapped = False \<rparr>"
  let ?post = "[\<lparr> strategy_name = ''CORSProxy'',
         strategy_url = ''https://corsproxy.io/?'' @ encodeURIComponent feedUrl,
         isWrapped = False \<rparr>,
      \<lparr> strategy_name = ''AllOrigins Wrapped'',
         strategy_url = ''https://api.allorigins.win/get?url='' @ encodeURIComponent feedUrl,
         isWrapped = True \<rparr>]"
  have u: "getXmlUrl ''1629'' = feedUrl"
    by (simp add: getXmlUrl_def feedUrl_def trim_def isWhiteSpace_def isDigit_def)
  have n: "feedUrl \<noteq> []" by (simp add: feedUrl_def)
  have sp: "strategies html_env feedUrl = [] @ ?s # ?post"
    by (simp add: strategies_def)
  have pre: "\<forall>s'\<in>set []. \<forall>st. \<not> truthy (xmlText st) \<longrightarrow> \<not> truthy (xmlText (attempt html_env s' st))"
    by simp
  have body: "\<forall>st. \<not> truthy (xmlText st) \<longrightarrow> xmlText (attempt html_env ?s st) = Some htmlPage"
    by (simp add: attempt_def html_env_def Let_def)
  have h: "isHtml htmlPage" by (rule htmlPage_isHtml)
  have ne: "htmlPage \<noteq> []" by (simp add: htmlPage_def)
  from html_body_fails_fetch [OF u n sp pre body ne h] u n h ne show ?thesis by simp
qed

text \<open>
  C1 as stated fails: in \<open>html_env\<close> the first relay answers the request for
  cluster 1629 with an HTML error page and the second relay would answer with the
  feed. The second relay is never asked: the only strategy attempted is the first,
  and the fetch ends with the invalid-content error and no products.
\<close>

theorem html_body_fails_fetch_counterexample:
  "fetch html_env (strategy_url (strategies html_env feedUrl ! 0))
     = Resolved \<lparr> ok = True, body_text = Some htmlPage, body_json = None \<rparr>
   \<and> isHtml htmlPage
   \<and> fetch html_env (strategy_url (strategies html_env feedUrl ! 1))
     = Resolved \<lparr> ok = True, body_text = Some feedText, body_json = None \<rparr>
   \<and> \<not> isHtml feedText
   \<and> normalizeDoc html_env (parseFromString html_env feedText) = Inr [mapItem html_env 0 radioItem]
   \<and> getXmlUrl ''1629'' = feedUrl
   \<and> attempted (tryStrategies html_env (strategies html_env feedUrl) initial_fetch_state)
       = [''AllOrigins Raw'']
   \<and> fetchClusterData html_env ''1629'' start_state
       = \<lparr> products = [], selectedProduct = None,
           errorMsg = Some (InvalidContent ''AllOrigins Raw'') \<rparr>"
proof -
  have enc: "encodeURIComponent feedUrl
      = ''https%3A%2F%2Fwww.pardo.com.ar%2FXMLData%2Fcluster1629.xml''"
    by (simp add: feedUrl_def encodeURIComponent_def encodeChar_def uriUnreserved_def percent_def)
  have f0: "fetch html_env (strategy_url (strategies html_env feedUrl ! 0))
     = Resolved \<lparr> ok = True, body_text = Some htmlPage, body_json = None \<rparr>"
    by (simp add: strategies_def html_env_def)
  have f1: "fetch html_env (strategy_url (strategies html_env feedUrl ! 1))
     = Resolved \<lparr> ok = True, body_text = Some feedText, body_json = None \<rparr>"
    by (simp add: strategies_def html_env_def enc)
  have u: "getXmlUrl ''1629'' = feedUrl"
    by (simp add: getXmlUrl_def feedUrl_def trim_def isWhiteSpace_def isDigit_def)
  have first: "attempt html_env (strategies html_env feedUrl ! 0) initial_fetch_state
      = \<lparr> xmlText = Some htmlPage, successSource = ''AllOrigins Raw'',
          attempted = [''AllOrigins Raw''], failed = [] \<rparr>"
    using f0 by (simp add: attempt_def Let_def initial_fetch_state_def) (simp add: strategies_def)
  have t: "truthy (Some htmlPage)"
    by (simp add: truthy_def htmlPage_def)
  have run: "tryStrategies html_env (strategies html_env feedUrl) initial_fetch_state
      = \<lparr> xmlText = Some htmlPage, successSource = ''AllOrigins Raw'',
          attempted = [''AllOrigins Raw''], failed = [] \<rparr>"
    using first t initial_falsy by (simp add: strategies_def)
  obtain c r where page: "htmlPage = c # r"
    by (cases htmlPage) (simp_all add: htmlPage_def)
  have acq: "acquire html_env feedUrl = Inl (InvalidContent ''AllOrigins Raw'')"
    using htmlPage_isHtml by (simp add: acquire_def run) (simp add: page)
  have all: "fetchClusterData html_env ''1629'' start_state
       = \<lparr> products = [], selectedProduct = None,
           errorMsg = Some (InvalidContent ''AllOrigins Raw'') \<rparr>"
    by (simp add: fetchClusterData_def u loadFeed_def acq) (simp add: feedUrl_def)
  have p: "parseFromString html_env feedText = radioDoc"
    by (simp add: html_env_def)
  have d: "docElementsByTagName radioDoc ''parsererror'' = []"
    by (simp add: radioDoc_def radioItem_def docElementsByTagName_def)
  have e: "locateItems radioDoc = [radioItem]"
    by (simp add: locateItems_def radioDoc_def radioItem_def docElementsByTagName_def)
  have m: "mappedProducts html_env [radioItem] = [mapItem html_env 0 radioItem]"
    by (simp add: mappedProducts_def)
  have ti: "getText radioItem [''title'', ''name''] = ''Radio''"
    by (simp add: radioItem_def dom_eval)
  have v: "validProduct (mapItem html_env 0 radioItem)"
    by (simp add: validProduct_def mapItem_name ti)
  have nd: "normalizeDoc html_env (parseFromString html_env feedText) = Inr [mapItem html_env 0 radioItem]"
    using normalizeDoc_unfold [of radioDoc html_env] d e by (simp add: p m v)
  from f0 f1 htmlPage_isHtml feedText_not_html nd u run all show ?thesis by simp
qed

end
